theory Spec2Isabelle
  imports Main "HOL-Library.Sublist" "HOL-Library.Word"
begin

section \<open>Python values\<close>

text \<open>
  A Python \<^verbatim>\<open>str\<close> is a sequence of Unicode code points, so a string is a list of code
  points, each a natural number. The source's string constants are written code point by
  code point in hexadecimal; ASCII runs are written \<open>ascii ''...''\<close>. A formal comment
  before a constant gives an English gloss of its Chinese text, in angle brackets; in
  these comments \<open>'\<close> stands for the double quote of the source.
  \<^verbatim>\<open>bytes\<close> are lists of 8-bit words.
\<close>

type_synonym pystr = "nat list"

type_synonym bytes = "8 word list"

definition ascii :: "string \<Rightarrow> pystr" where
  "ascii s = map of_char s"

text \<open>
  Exceptions. Every exception of the model is an instance of Python's \<^verbatim>\<open>Exception\<close>,
  so \<^verbatim>\<open>except Exception\<close> and a bare \<^verbatim>\<open>except\<close> catch all of them; the class
  matters only to \<^verbatim>\<open>except json.JSONDecodeError\<close>. Signals outside \<^verbatim>\<open>Exception\<close>
  (KeyboardInterrupt, SystemExit) are not modelled. The second component is \<^verbatim>\<open>str(e)\<close>.
\<close>

datatype exn_class =
    JSONDecodeError | KeyError | ValueError | IndexError | TypeError | AttributeError
  | UnicodeDecodeError | OtherException

datatype exn = Exn exn_class pystr

primrec exn_class_of :: "exn \<Rightarrow> exn_class" where
  "exn_class_of (Exn c m) = c"

primrec str_exn :: "exn \<Rightarrow> pystr" where
  "str_exn (Exn c m) = m"

text \<open>
  The values \<^verbatim>\<open>json.loads\<close> produces, and the dicts \<^verbatim>\<open>legal_agent\<close> builds itself.
  A dict holds its items in insertion order, with distinct keys; \<open>PyFloat m e\<close> stands
  for the float \<open>m * 2^e\<close> (no operation of the program looks inside a number).
\<close>

datatype pyval =
    PyNone
  | PyBool bool
  | PyInt int
  | PyFloat int int
  | PyStr pystr
  | PyList "pyval list"
  | PyDict "(pystr \<times> pyval) list"

fun type_name :: "pyval \<Rightarrow> pystr" where
  "type_name PyNone = ascii ''NoneType''"
| "type_name (PyBool b) = ascii ''bool''"
| "type_name (PyInt i) = ascii ''int''"
| "type_name (PyFloat m e) = ascii ''float''"
| "type_name (PyStr s) = ascii ''str''"
| "type_name (PyList xs) = ascii ''list''"
| "type_name (PyDict kvs) = ascii ''dict''"

text \<open>\<^verbatim>\<open>if api_key:\<close> on an optional string: neither \<^verbatim>\<open>None\<close> nor empty.\<close>

fun truthy :: "pystr option \<Rightarrow> bool" where
  "truthy None = False"
| "truthy (Some s) = (s \<noteq> [])"

text \<open>\<^verbatim>\<open>d[key]\<close> on a dict literal of the source: KeyError when the key is missing.\<close>

definition dict_index :: "(pystr \<times> 'v) list \<Rightarrow> pystr \<Rightarrow> exn + 'v" where
  "dict_index d key =
     (case map_of d key of
        None \<Rightarrow> Inl (Exn KeyError ([0x27] @ key @ [0x27]))
      | Some v \<Rightarrow> Inr v)"

text \<open>\<^verbatim>\<open>d.get(key, default)\<close> on a dict literal of the source.\<close>

definition dict_get :: "(pystr \<times> 'v) list \<Rightarrow> pystr \<Rightarrow> 'v \<Rightarrow> 'v" where
  "dict_get d key dflt = (case map_of d key of None \<Rightarrow> dflt | Some v \<Rightarrow> v)"

text \<open>
  \<^verbatim>\<open>result.get(key, default)\<close> on a decoded value: only a dict has the method.
\<close>

definition py_get :: "pyval \<Rightarrow> pystr \<Rightarrow> pyval \<Rightarrow> exn + pyval" where
  "py_get obj key dflt =
     (case obj of
        PyDict kvs \<Rightarrow> Inr (dict_get kvs key dflt)
      | _ \<Rightarrow> Inl (Exn AttributeError
                ([0x27] @ type_name obj @ [0x27] @ ascii '' object has no attribute '' @
                 [0x27] @ ascii ''get'' @ [0x27])))"



text \<open>\<^verbatim>\<open>sep.join(parts)\<close> on a list of strings.\<close>

fun join :: "pystr \<Rightarrow> pystr list \<Rightarrow> pystr" where
  "join sep [] = []"
| "join sep [x] = x"
| "join sep (x # y # ys) = x @ sep @ join sep (y # ys)"



text \<open>
  \<^verbatim>\<open>xs[i:]\<close>: a negative start counts from the end, and the start is clamped to the
  list.
\<close>

definition slice_from :: "int \<Rightarrow> 'a list \<Rightarrow> 'a list" where
  "slice_from i xs =
     (let n = int (length xs);
          start = (if i < 0 then max (n + i) 0 else min i n)
      in drop (nat start) xs)"

section \<open>The outside world\<close>

text \<open>
  What the program calls outside itself is a parameter of the model: the secrets store,
  the environment, the model endpoint, \<^verbatim>\<open>json.loads\<close>, the document libraries. Every
  theorem holds for every value of these parameters. A call that can fail returns
  \<open>Inl\<close> of the exception it raises.
\<close>

text \<open>The keyword arguments of \<^verbatim>\<open>ChatOpenAI(...)\<close> (utils.py, lines 173-179).\<close>

record chat_openai_args =
  llm_api_key :: pystr
  llm_base_url :: pystr
  llm_model :: pystr
  llm_temperature :: pystr  \<comment> \<open>the float literal as written\<close>
  llm_max_tokens :: nat

record externals =
  st_secrets :: "pystr \<Rightarrow> exn + pystr"
    \<comment> \<open>\<^verbatim>\<open>st.secrets[name]\<close>, a secret being a string\<close>
  load_dotenv :: "exn option"
    \<comment> \<open>\<^verbatim>\<open>from dotenv import load_dotenv; load_dotenv()\<close>: the exception raised, if any\<close>
  os_getenv :: "pystr \<Rightarrow> pystr option"
    \<comment> \<open>\<^verbatim>\<open>os.getenv(name)\<close>, read after \<^verbatim>\<open>load_dotenv()\<close>\<close>
  ChatOpenAI :: "chat_openai_args \<Rightarrow> exn option"
    \<comment> \<open>building the client: the exception raised, if any\<close>
  chain_run :: "chat_openai_args \<Rightarrow> pystr \<Rightarrow> exn + pystr"
    \<comment> \<open>the outbound call: the reply text for a client and a rendered prompt\<close>
  json_loads :: "pystr \<Rightarrow> exn + pyval"
    \<comment> \<open>\<^verbatim>\<open>json.loads(text)\<close>\<close>
  builtin_str :: "pyval \<Rightarrow> pystr"
    \<comment> \<open>\<^verbatim>\<open>str(value)\<close> for a value that is not a str\<close>
  PDF_SUPPORT :: bool
    \<comment> \<open>main.py, lines 31-35: \<^verbatim>\<open>import PyPDF2\<close> succeeded\<close>
  DOCX_SUPPORT :: bool
    \<comment> \<open>main.py, lines 37-41: \<^verbatim>\<open>import docx\<close> succeeded\<close>
  PdfReader :: "bytes \<Rightarrow> exn + (exn + pystr) list"
    \<comment> \<open>\<^verbatim>\<open>PyPDF2.PdfReader(doc_file).pages\<close>, each page with what its
        \<^verbatim>\<open>extract_text()\<close> does\<close>
  docx_Document :: "bytes \<Rightarrow> exn + pystr list"
    \<comment> \<open>\<^verbatim>\<open>docx.Document(doc_file).paragraphs\<close>, each paragraph's text\<close>
  decode_utf8 :: "bytes \<Rightarrow> exn + pystr"
    \<comment> \<open>\<^verbatim>\<open>doc_file.getvalue().decode("utf-8")\<close>\<close>

text \<open>
  What the program does to the outside, in the order it does it: messages shown by
  \<^verbatim>\<open>st.error\<close> and \<^verbatim>\<open>st.warning\<close>, lines printed, and outbound calls to the model.
  These three calls return normally.
\<close>

datatype event =
    StError pystr
  | StWarning pystr
  | Print pystr
  | ChainRun chat_openai_args pystr

fun is_chain_run :: "event \<Rightarrow> bool" where
  "is_chain_run (ChainRun args prompt) = True"
| "is_chain_run e = False"

section \<open>utils.py\<close>

subsection \<open>The catalog (lines 13-97, 125-131)\<close>

definition DEFAULT_DOMAIN :: pystr where
  \<comment> \<open>general legal consultation\<close>
  "DEFAULT_DOMAIN = [0x4E00, 0x822C, 0x6CD5, 0x5F8B, 0x54A8, 0x8BE2]"

definition LEGAL_DOMAINS :: "pystr list" where
  "LEGAL_DOMAINS = [
    \<comment> \<open>general legal consultation\<close>
    [0x4E00, 0x822C, 0x6CD5, 0x5F8B, 0x54A8, 0x8BE2],
    \<comment> \<open>labour law\<close>
    [0x52B3, 0x52A8, 0x6CD5],
    \<comment> \<open>contract law\<close>
    [0x5408, 0x540C, 0x6CD5],
    \<comment> \<open>marriage and family law\<close>
    [0x5A5A, 0x59FB, 0x5BB6, 0x5EAD, 0x6CD5],
    \<comment> \<open>criminal law\<close>
    [0x5211, 0x4E8B, 0x6CD5],
    \<comment> \<open>civil litigation\<close>
    [0x6C11, 0x4E8B, 0x8BC9, 0x8BBC],
    \<comment> \<open>commercial law\<close>
    [0x5546, 0x4E1A, 0x6CD5],
    \<comment> \<open>intellectual property\<close>
    [0x77E5, 0x8BC6, 0x4EA7, 0x6743],
    \<comment> \<open>real-estate law\<close>
    [0x623F, 0x5730, 0x4EA7, 0x6CD5],
    \<comment> \<open>administrative law\<close>
    [0x884C, 0x653F, 0x6CD5],
    \<comment> \<open>traffic accidents\<close>
    [0x4EA4, 0x901A, 0x4E8B, 0x6545],
    \<comment> \<open>consumer rights\<close>
    [0x6D88, 0x8D39, 0x8005, 0x6743, 0x76CA],
    \<comment> \<open>medical disputes\<close>
    [0x533B, 0x7597, 0x7EA0, 0x7EB7]
  ]"

definition SAMPLE_QUESTIONS :: "(pystr \<times> pystr list) list" where
  "SAMPLE_QUESTIONS = [
    \<comment> \<open>general legal consultation\<close>
    ([0x4E00, 0x822C, 0x6CD5, 0x5F8B, 0x54A8, 0x8BE2], [
      \<comment> \<open>How do I look up the latest version of a law or regulation?\<close>
      [0x5982, 0x4F55, 0x67E5, 0x8BE2, 0x67D0, 0x9879, 0x6CD5, 0x5F8B, 0x6CD5, 0x89C4,
       0x7684, 0x6700, 0x65B0, 0x7248, 0x672C, 0xFF1F],
      \<comment> \<open>I need legal aid; how should I apply?\<close>
      [0x6211, 0x9700, 0x8981, 0x6CD5, 0x5F8B, 0x63F4, 0x52A9, 0xFF0C, 0x5E94, 0x8BE5,
       0x5982, 0x4F55, 0x7533, 0x8BF7, 0xFF1F],
      \<comment> \<open>When is notarisation required?\<close>
      [0x4EC0, 0x4E48, 0x60C5, 0x51B5, 0x4E0B, 0x9700, 0x8981, 0x516C, 0x8BC1, 0xFF1F]]),
    \<comment> \<open>labour law\<close>
    ([0x52B3, 0x52A8, 0x6CD5], [
      \<comment> \<open>What if my employer withholds wages without cause?\<close>
      [0x5355, 0x4F4D, 0x65E0, 0x6545, 0x62D6, 0x6B20, 0x5DE5, 0x8D44, 0x600E, 0x4E48,
       0x529E, 0xFF1F],
      \<comment> \<open>Is there compensation for dismissal during probation?\<close>
      [0x8BD5, 0x7528, 0x671F, 0x88AB, 0x8F9E, 0x9000, 0x662F, 0x5426, 0x6709, 0x8D54,
       0x507F, 0xFF1F],
      \<comment> \<open>How is overtime pay calculated?\<close>
      [0x52A0, 0x73ED, 0x8D39, 0x5982, 0x4F55, 0x8BA1, 0x7B97, 0xFF1F]]),
    \<comment> \<open>contract law\<close>
    ([0x5408, 0x540C, 0x6CD5], [
      \<comment> \<open>Is an oral agreement legally binding?\<close>
      [0x53E3, 0x5934, 0x534F, 0x8BAE, 0x662F, 0x5426, 0x5177, 0x6709, 0x6CD5, 0x5F8B,
       0x6548, 0x529B, 0xFF1F],
      \<comment> \<open>What is the upper limit of liquidated damages in a contract?\<close>
      [0x5408, 0x540C, 0x4E2D, 0x7684, 0x8FDD, 0x7EA6, 0x91D1, 0x4E0A, 0x9650, 0x662F,
       0x591A, 0x5C11, 0xFF1F],
      \<comment> \<open>What if the other party does not perform the contract?\<close>
      [0x5BF9, 0x65B9, 0x4E0D, 0x5C65, 0x884C, 0x5408, 0x540C, 0x4E49, 0x52A1, 0x600E,
       0x4E48, 0x529E, 0xFF1F]]),
    \<comment> \<open>marriage and family law\<close>
    ([0x5A5A, 0x59FB, 0x5BB6, 0x5EAD, 0x6CD5], [
      \<comment> \<open>How is property divided on divorce?\<close>
      [0x79BB, 0x5A5A, 0x65F6, 0x8D22, 0x4EA7, 0x5982, 0x4F55, 0x5206, 0x5272, 0xFF1F],
      \<comment> \<open>How do I apply for child custody?\<close>
      [0x5982, 0x4F55, 0x7533, 0x8BF7, 0x5B50, 0x5973, 0x629A, 0x517B, 0x6743, 0xFF1F],
      \<comment> \<open>How to seek legal protection from domestic violence?\<close>
      [0x5BB6, 0x5EAD, 0x66B4, 0x529B, 0x5E94, 0x5982, 0x4F55, 0x5BFB, 0x6C42, 0x6CD5,
       0x5F8B, 0x4FDD, 0x62A4, 0xFF1F]]),
    \<comment> \<open>criminal law\<close>
    ([0x5211, 0x4E8B, 0x6CD5], [
      \<comment> \<open>What is justifiable defence?\<close>
      [0x4EC0, 0x4E48, 0x662F, 0x6B63, 0x5F53, 0x9632, 0x536B, 0xFF1F],
      \<comment> \<open>What are the conditions for bail pending trial?\<close>
      [0x53D6, 0x4FDD, 0x5019, 0x5BA1, 0x7684, 0x6761, 0x4EF6, 0x662F, 0x4EC0, 0x4E48,
       0xFF1F],
      \<comment> \<open>What is the legal standard separating minor from serious injury?\<close>
      [0x8F7B, 0x4F24, 0x548C, 0x91CD, 0x4F24, 0x7684, 0x6CD5, 0x5F8B, 0x754C, 0x5B9A,
       0x6807, 0x51C6, 0x662F, 0x4EC0, 0x4E48, 0xFF1F]]),
    \<comment> \<open>civil litigation\<close>
    ([0x6C11, 0x4E8B, 0x8BC9, 0x8BBC], [
      \<comment> \<open>What is the basic procedure of civil litigation?\<close>
      [0x6C11, 0x4E8B, 0x8BC9, 0x8BBC, 0x7684, 0x57FA, 0x672C, 0x6D41, 0x7A0B, 0x662F,
       0x4EC0, 0x4E48, 0xFF1F],
      \<comment> \<open>How do I apply for court enforcement?\<close>
      [0x5982, 0x4F55, 0x7533, 0x8BF7, 0x6CD5, 0x9662, 0x5F3A, 0x5236, 0x6267, 0x884C,
       0xFF1F],
      \<comment> \<open>What is the limitation period for civil litigation?\<close>
      [0x6C11, 0x4E8B, 0x8BC9, 0x8BBC, 0x7684, 0x8BC9, 0x8BBC, 0x65F6, 0x6548, 0x662F,
       0x591A, 0x4E45, 0xFF1F]]),
    \<comment> \<open>commercial law\<close>
    ([0x5546, 0x4E1A, 0x6CD5], [
      \<comment> \<open>What are the basic legal requirements for registering a company?\<close>
      [0x6CE8, 0x518C, 0x516C, 0x53F8, 0x7684, 0x57FA, 0x672C, 0x6CD5, 0x5F8B, 0x8981,
       0x6C42, 0x662F, 0x4EC0, 0x4E48, 0xFF1F],
      \<comment> \<open>How are shareholder rights protected by law?\<close>
      [0x80A1, 0x4E1C, 0x6743, 0x76CA, 0x5982, 0x4F55, 0x5F97, 0x5230, 0x6CD5, 0x5F8B,
       0x4FDD, 0x969C, 0xFF1F],
      \<comment> \<open>What is the procedure of company bankruptcy liquidation?\<close>
      [0x516C, 0x53F8, 0x7834, 0x4EA7, 0x6E05, 0x7B97, 0x7684, 0x6D41, 0x7A0B, 0x662F,
       0x4EC0, 0x4E48, 0xFF1F]]),
    \<comment> \<open>intellectual property\<close>
    ([0x77E5, 0x8BC6, 0x4EA7, 0x6743], [
      \<comment> \<open>How do I apply for a patent for my idea?\<close>
      [0x5982, 0x4F55, 0x4E3A, 0x81EA, 0x5DF1, 0x7684, 0x521B, 0x610F, 0x7533, 0x8BF7,
       0x4E13, 0x5229, 0xFF1F],
      \<comment> \<open>What is the standard for trademark infringement?\<close>
      [0x5546, 0x6807, 0x4FB5, 0x6743, 0x7684, 0x5224, 0x5B9A, 0x6807, 0x51C6, 0x662F,
       0x4EC0, 0x4E48, 0xFF1F],
      \<comment> \<open>How long is software copyright protected?\<close>
      [0x8F6F, 0x4EF6, 0x8457, 0x4F5C, 0x6743, 0x4FDD, 0x62A4, 0x671F, 0x9650, 0x662F,
       0x591A, 0x4E45, 0xFF1F]]),
    \<comment> \<open>real-estate law\<close>
    ([0x623F, 0x5730, 0x4EA7, 0x6CD5], [
      \<comment> \<open>Which legal issues matter in a second-hand home sale?\<close>
      [0x4E8C, 0x624B, 0x623F, 0x4EA4, 0x6613, 0x4E2D, 0x9700, 0x8981, 0x6CE8, 0x610F,
       0x54EA, 0x4E9B, 0x6CD5, 0x5F8B, 0x95EE, 0x9898, 0xFF1F],
      \<comment> \<open>Which clauses must a tenancy contract contain?\<close>
      [0x623F, 0x5C4B, 0x79DF, 0x8D41, 0x5408, 0x540C, 0x5FC5, 0x987B, 0x5305, 0x542B,
       0x54EA, 0x4E9B, 0x6761, 0x6B3E, 0xFF1F],
      \<comment> \<open>What legal routes do home owners have to defend their rights?\<close>
      [0x4E1A, 0x4E3B, 0x7EF4, 0x6743, 0x7684, 0x6CD5, 0x5F8B, 0x9014, 0x5F84, 0x6709,
       0x54EA, 0x4E9B, 0xFF1F]]),
    \<comment> \<open>administrative law\<close>
    ([0x884C, 0x653F, 0x6CD5], [
      \<comment> \<open>How do I request disclosure of government information?\<close>
      [0x5982, 0x4F55, 0x7533, 0x8BF7, 0x653F, 0x5E9C, 0x4FE1, 0x606F, 0x516C, 0x5F00,
       0xFF1F],
      \<comment> \<open>What are the conditions and procedure of administrative review?\<close>
      [0x884C, 0x653F, 0x590D, 0x8BAE, 0x7684, 0x7533, 0x8BF7, 0x6761, 0x4EF6, 0x548C,
       0x6D41, 0x7A0B, 0x662F, 0x4EC0, 0x4E48, 0xFF1F],
      \<comment> \<open>What remedies exist against an administrative penalty decision?\<close>
      [0x884C, 0x653F, 0x5904, 0x7F5A, 0x51B3, 0x5B9A, 0x4E0D, 0x670D, 0x5982, 0x4F55,
       0x6551, 0x6D4E, 0xFF1F]]),
    \<comment> \<open>traffic accidents\<close>
    ([0x4EA4, 0x901A, 0x4E8B, 0x6545], [
      \<comment> \<open>How is liability for a traffic accident determined?\<close>
      [0x4EA4, 0x901A, 0x4E8B, 0x6545, 0x8D23, 0x4EFB, 0x5982, 0x4F55, 0x8BA4, 0x5B9A,
       0xFF1F],
      \<comment> \<open>Which items does traffic accident compensation include?\<close>
      [0x4EA4, 0x901A, 0x4E8B, 0x6545, 0x8D54, 0x507F, 0x9879, 0x76EE, 0x5305, 0x62EC,
       0x54EA, 0x4E9B, 0xFF1F],
      \<comment> \<open>What if mediation of a traffic accident fails?\<close>
      [0x4EA4, 0x901A, 0x4E8B, 0x6545, 0x8C03, 0x89E3, 0x4E0D, 0x6210, 0x529F, 0x600E,
       0x4E48, 0x529E, 0xFF1F]]),
    \<comment> \<open>consumer rights\<close>
    ([0x6D88, 0x8D39, 0x8005, 0x6743, 0x76CA], [
      \<comment> \<open>How to claim for quality defects of goods bought online?\<close>
      [0x7F51, 0x8D2D, 0x5546, 0x54C1, 0x5B58, 0x5728, 0x8D28, 0x91CF, 0x95EE, 0x9898,
       0x5982, 0x4F55, 0x7EF4, 0x6743, 0xFF1F],
      \<comment> \<open>What is the compensation standard for food safety problems?\<close>
      [0x9910, 0x996E, 0x98DF, 0x54C1, 0x5B89, 0x5168, 0x95EE, 0x9898, 0x7684, 0x8D54,
       0x507F, 0x6807, 0x51C6, 0x662F, 0x4EC0, 0x4E48, 0xFF1F],
      \<comment> \<open>How do I complain about a merchant's false advertising?\<close>
      [0x5982, 0x4F55, 0x6295, 0x8BC9, 0x5546, 0x5BB6, 0x865A, 0x5047, 0x5BA3, 0x4F20,
       0xFF1F]]),
    \<comment> \<open>medical disputes\<close>
    ([0x533B, 0x7597, 0x7EA0, 0x7EB7], [
      \<comment> \<open>What is the difference between a medical accident and medical fault?\<close>
      [0x533B, 0x7597, 0x4E8B, 0x6545, 0x4E0E, 0x533B, 0x7597, 0x8FC7, 0x9519, 0x7684,
       0x533A, 0x522B, 0x662F, 0x4EC0, 0x4E48, 0xFF1F],
      \<comment> \<open>What are the elements of liability for medical damage?\<close>
      [0x533B, 0x7597, 0x635F, 0x5BB3, 0x8D54, 0x507F, 0x7684, 0x6784, 0x6210, 0x8981,
       0x4EF6, 0x6709, 0x54EA, 0x4E9B, 0xFF1F],
      \<comment> \<open>How to collect evidence in a medical dispute?\<close>
      [0x5982, 0x4F55, 0x6536, 0x96C6, 0x533B, 0x7597, 0x7EA0, 0x7EB7, 0x8BC1, 0x636E,
       0xFF1F]])
  ]"

definition PROMPT_TEMPLATE :: pystr where
  "PROMPT_TEMPLATE =
    \<comment> \<open>line 100: <You are a professional legal adviser; give accurate, objective legal information and advice on the user's question.>\<close>
    [0x4F60, 0x662F, 0x4E00, 0x4F4D, 0x4E13, 0x4E1A, 0x7684, 0x6CD5, 0x5F8B, 0x987E] @
    [0x95EE, 0xFF0C, 0x8BF7, 0x6839, 0x636E, 0x7528, 0x6237, 0x7684, 0x95EE, 0x9898] @
    [0x63D0, 0x4F9B, 0x51C6, 0x786E, 0x3001, 0x5BA2, 0x89C2, 0x7684, 0x6CD5, 0x5F8B] @
    [0x4FE1, 0x606F, 0x548C, 0x5EFA, 0x8BAE, 0x3002, 0xA] @
    \<comment> \<open>line 101: (empty line)\<close>
    [0xA] @
    \<comment> \<open>line 102: <Note that your answer should:>\<close>
    [0x8BF7, 0x6CE8, 0x610F, 0xFF0C, 0x4F60, 0x7684, 0x56DE, 0x7B54, 0x5E94, 0x5F53] @
    [0xFF1A, 0xA] @
    \<comment> \<open>line 103: 1. <be based on the laws and regulations in force in China and avoid personal views that may mislead the user>\<close>
    ascii ''1. '' @
    [0x57FA, 0x4E8E, 0x4E2D, 0x56FD, 0x73B0, 0x884C, 0x6CD5, 0x5F8B, 0x6CD5, 0x89C4] @
    [0xFF0C, 0x907F, 0x514D, 0x7ED9, 0x51FA, 0x53EF, 0x80FD, 0x8BEF, 0x5BFC, 0x7528] @
    [0x6237, 0x7684, 0x4E2A, 0x4EBA, 0x89C1, 0x89E3, 0xA] @
    \<comment> \<open>line 104: 2. <state the limits and uncertainty of the law clearly>\<close>
    ascii ''2. '' @
    [0x660E, 0x786E, 0x6307, 0x51FA, 0x6CD5, 0x5F8B, 0x7684, 0x5C40, 0x9650, 0x6027] @
    [0x548C, 0x4E0D, 0x786E, 0x5B9A, 0x6027, 0xA] @
    \<comment> \<open>line 105: 3. <remind the user to consult a professional lawyer on important legal matters>\<close>
    ascii ''3. '' @
    [0x63D0, 0x9192, 0x7528, 0x6237, 0x5728, 0x91CD, 0x8981, 0x6CD5, 0x5F8B, 0x4E8B] @
    [0x52A1, 0x4E0A, 0x54A8, 0x8BE2, 0x4E13, 0x4E1A, 0x5F8B, 0x5E08, 0xA] @
    \<comment> \<open>line 106: 4. <give a clear, structured answer>\<close>
    ascii ''4. '' @
    [0x63D0, 0x4F9B, 0x6E05, 0x6670, 0x3001, 0x7ED3, 0x6784, 0x5316, 0x7684, 0x56DE] @
    [0x7B54, 0xA] @
    \<comment> \<open>line 107: (empty line)\<close>
    [0xA] @
    \<comment> \<open>line 108: <Current consultation type>: {consult_type}\<close>
    [0x5F53, 0x524D, 0x54A8, 0x8BE2, 0x7C7B, 0x578B] @ ascii '': {consult_type}'' @ [0xA] @
    \<comment> \<open>line 109: <Legal domain>: {legal_domain}\<close>
    [0x6CD5, 0x5F8B, 0x9886, 0x57DF] @ ascii '': {legal_domain}'' @ [0xA] @
    \<comment> \<open>line 110: (empty line)\<close>
    [0xA] @
    \<comment> \<open>line 111: <Please respond in the following JSON format>:\<close>
    [0x8BF7, 0x6309, 0x7167, 0x4EE5, 0x4E0B] @ ascii ''JSON'' @
    [0x683C, 0x5F0F, 0x56DE, 0x5E94, 0x3A, 0xA] @
    \<comment> \<open>line 112: (empty line)\<close>
    [0xA] @
    \<comment> \<open>line 113: <For basic legal information>:\<close>
    [0x5BF9, 0x4E8E, 0x57FA, 0x672C, 0x6CD5, 0x5F8B, 0x4FE1, 0x606F, 0x3A, 0xA] @
    \<comment> \<open>line 114: {{'answer': '<detailed legal explanation and information>', 'references': ['<legal provision 1>', '<legal provision 2>']}}\<close>
    ascii ''{{\"answer\": \"'' @
    [0x8BE6, 0x7EC6, 0x7684, 0x6CD5, 0x5F8B, 0x89E3, 0x91CA, 0x548C, 0x4FE1, 0x606F] @
    ascii ''\", \"references\": [\"'' @ [0x76F8, 0x5173, 0x6CD5, 0x5F8B, 0x6761, 0x6B3E] @
    ascii ''1\", \"'' @ [0x76F8, 0x5173, 0x6CD5, 0x5F8B, 0x6761, 0x6B3E] @ ascii ''2\"]}}'' @
    [0xA] @
    \<comment> \<open>line 115: (empty line)\<close>
    [0xA] @
    \<comment> \<open>line 116: <For legal document interpretation>:\<close>
    [0x5BF9, 0x4E8E, 0x6CD5, 0x5F8B, 0x6587, 0x4EF6, 0x89E3, 0x8BFB, 0x3A, 0xA] @
    \<comment> \<open>line 117: {{'answer': '<explanation and analysis of the document>', 'references': ['<legal basis 1>', '<legal basis 2>']}}\<close>
    ascii ''{{\"answer\": \"'' @
    [0x5BF9, 0x6587, 0x4EF6, 0x7684, 0x89E3, 0x91CA, 0x548C, 0x5206, 0x6790] @
    ascii ''\", \"references\": [\"'' @ [0x76F8, 0x5173, 0x6CD5, 0x5F8B, 0x4F9D, 0x636E] @
    ascii ''1\", \"'' @ [0x76F8, 0x5173, 0x6CD5, 0x5F8B, 0x4F9D, 0x636E] @ ascii ''2\"]}}'' @
    [0xA] @
    \<comment> \<open>line 118: (empty line)\<close>
    [0xA] @
    \<comment> \<open>line 119: <For case research and strategy>:\<close>
    [0x5BF9, 0x4E8E, 0x6848, 0x4EF6, 0x7814, 0x7A76, 0x4E0E, 0x7B56, 0x7565, 0x3A] @ [0xA] @
    \<comment> \<open>line 120: {{'answer': '<analysis of the case>', 'steps': ['<suggested step 1>', '<suggested step 2>'], 'references': ['<related case 1>', '<related case 2>']}}\<close>
    ascii ''{{\"answer\": \"'' @ [0x5BF9, 0x6848, 0x4EF6, 0x7684, 0x5206, 0x6790] @
    ascii ''\", \"steps\": [\"'' @ [0x5EFA, 0x8BAE, 0x6B65, 0x9AA4] @ ascii ''1\", \"'' @
    [0x5EFA, 0x8BAE, 0x6B65, 0x9AA4] @ ascii ''2\"], \"references\": [\"'' @
    [0x76F8, 0x5173, 0x6CD5, 0x5F8B, 0x6848, 0x4F8B] @ ascii ''1\", \"'' @
    [0x76F8, 0x5173, 0x6CD5, 0x5F8B, 0x6848, 0x4F8B] @ ascii ''2\"]}}'' @ [0xA] @
    \<comment> \<open>line 121: (empty line)\<close>
    [0xA] @
    \<comment> \<open>line 122: <User question>: {query}\<close>
    [0x7528, 0x6237, 0x95EE, 0x9898] @ ascii '': {query}'' @ [0xA]"

definition get_legal_domains :: "pystr list" where
  "get_legal_domains = LEGAL_DOMAINS"

text \<open>
  Line 131. Python evaluates the default \<^verbatim>\<open>SAMPLE_QUESTIONS["..."]\<close> before the call
  to \<^verbatim>\<open>get\<close>, so a catalog without the default domain would raise KeyError.
\<close>

definition get_sample_questions :: "pystr \<Rightarrow> exn + pystr list" where
  "get_sample_questions domain =
     (case dict_index SAMPLE_QUESTIONS DEFAULT_DOMAIN of
        Inl e \<Rightarrow> Inl e
      | Inr dflt \<Rightarrow> Inr (dict_get SAMPLE_QUESTIONS domain dflt))"

subsection \<open>Credentials (lines 133-156)\<close>

definition API_KEY :: pystr where
  "API_KEY = ascii ''API_KEY''"

definition OPENAI_API_KEY :: pystr where
  "OPENAI_API_KEY = ascii ''OPENAI_API_KEY''"

definition OPENAI_API_BASE :: pystr where
  "OPENAI_API_BASE = ascii ''OPENAI_API_BASE''"

definition TWAPI_BASE :: pystr where
  \<comment> \<open>lines 138 and 148\<close>
  "TWAPI_BASE = ascii ''https://twapi.openai-hk.com/v1''"

definition OPENAI_BASE :: pystr where
  \<comment> \<open>line 156\<close>
  "OPENAI_BASE = ascii ''https://api.openai.com/v1''"

text \<open>
  Lines 143-153, the inner \<^verbatim>\<open>try\<close>: the pair it returns at line 151, or \<open>None\<close> when
  control falls through to line 155 (the key is unset or empty, or loading the
  environment raised and the bare \<^verbatim>\<open>except\<close> passed).
\<close>

definition env_credentials :: "externals \<Rightarrow> (pystr \<times> pystr) option" where
  "env_credentials x =
     (case load_dotenv x of
        Some e \<Rightarrow> None
      | None \<Rightarrow>
          (let api_key = os_getenv x OPENAI_API_KEY;
               api_base = (case os_getenv x OPENAI_API_BASE of
                             None \<Rightarrow> TWAPI_BASE
                           | Some b \<Rightarrow> b)
           in case api_key of
                None \<Rightarrow> None
              | Some key \<Rightarrow> if key \<noteq> [] then Some (key, api_base) else None))"

definition CREDENTIALS_ERROR :: pystr where
  \<comment> \<open>line 155: <error while getting the API credentials>, before str(e)\<close>
  "CREDENTIALS_ERROR = ([0x83B7, 0x53D6] @ ascii ''API'' @
                        [0x51ED, 0x636E, 0x65F6, 0x51FA, 0x9519] @ ascii '': '')"

text \<open>
  The result is the pair \<^verbatim>\<open>(api_key, api_base)\<close>, the key \<open>None\<close> at line 156, with the
  events of the call. No path of the function raises.
\<close>

definition get_api_credentials ::
    "externals \<Rightarrow> (exn + (pystr option \<times> pystr)) \<times> event list" where
  "get_api_credentials x =
     (case st_secrets x API_KEY of
        Inr api_key \<Rightarrow> (Inr (Some api_key, TWAPI_BASE), [])
      | Inl e \<Rightarrow>
          (case env_credentials x of
             Some (api_key, api_base) \<Rightarrow> (Inr (Some api_key, api_base), [])
           | None \<Rightarrow>
               (Inr (None, OPENAI_BASE), [StError (CREDENTIALS_ERROR @ str_exn e)])))"

subsection \<open>The prompt (lines 100-123, 181-187)\<close>

text \<open>
  \<^verbatim>\<open>PromptTemplate\<close> renders its template as \<^verbatim>\<open>str.format\<close> does, with the three
  keyword arguments. The scanner below is \<^verbatim>\<open>str.format\<close> for templates whose
  replacement fields are plain names: \<^verbatim>\<open>{{\<close> and \<^verbatim>\<open>}}\<close> are literal braces, \<^verbatim>\<open>{name}\<close>
  is replaced by the argument of that name (the value is copied as it is, never
  scanned again). A field with a conversion, a format specification, an attribute or
  an index is outside this subset, and the scanner answers \<open>OtherException\<close> there;
  the template of this program has no such field.
\<close>

datatype fmt_state =
    Literal           \<comment> \<open>in literal text\<close>
  | AfterOpen         \<comment> \<open>just after a \<^verbatim>\<open>{\<close>\<close>
  | InField pystr     \<comment> \<open>in a replacement field, with the name read so far\<close>
  | AfterClose        \<comment> \<open>just after a \<^verbatim>\<open>}\<close> in literal text\<close>

definition LBRACE :: nat where
  "LBRACE = 0x7B"

definition RBRACE :: nat where
  "RBRACE = 0x7D"

definition is_digit :: "nat \<Rightarrow> bool" where
  "is_digit c = (0x30 \<le> c \<and> c \<le> 0x39)"

text \<open>A field name: empty or a number asks for a positional argument, and there is none.\<close>

definition lookup_field :: "(pystr \<times> pystr) list \<Rightarrow> pystr \<Rightarrow> exn + pystr" where
  "lookup_field kwargs name =
     (if list_ex (\<lambda>c. c \<in> set (ascii ''!:.['')) name then
        Inl (Exn OtherException (ascii ''field outside the modelled subset''))
      else if list_all is_digit name then
        Inl (Exn IndexError
               (ascii ''Replacement index '' @ (if name = [] then ascii ''0'' else name) @
                ascii '' out of range for positional args tuple''))
      else dict_index kwargs name)"

fun format_scan ::
    "(pystr \<times> pystr) list \<Rightarrow> fmt_state \<Rightarrow> pystr \<Rightarrow> pystr \<Rightarrow> exn + pystr" where
  "format_scan kwargs Literal out [] = Inr out"
| "format_scan kwargs Literal out (c # cs) =
     (if c = LBRACE then format_scan kwargs AfterOpen out cs
      else if c = RBRACE then format_scan kwargs AfterClose out cs
      else format_scan kwargs Literal (out @ [c]) cs)"
| "format_scan kwargs AfterOpen out [] =
     Inl (Exn ValueError
            (ascii ''Single '' @ [0x27] @ ascii ''{'' @ [0x27] @
             ascii '' encountered in format string''))"
| "format_scan kwargs AfterOpen out (c # cs) =
     (if c = LBRACE then format_scan kwargs Literal (out @ [c]) cs
      else if c = RBRACE then
        (case lookup_field kwargs [] of
           Inl e \<Rightarrow> Inl e
         | Inr v \<Rightarrow> format_scan kwargs Literal (out @ v) cs)
      else format_scan kwargs (InField [c]) out cs)"
| "format_scan kwargs (InField name) out [] =
     Inl (Exn ValueError
            (ascii ''expected '' @ [0x27] @ ascii ''}'' @ [0x27] @
             ascii '' before end of string''))"
| "format_scan kwargs (InField name) out (c # cs) =
     (if c = RBRACE then
        (case lookup_field kwargs name of
           Inl e \<Rightarrow> Inl e
         | Inr v \<Rightarrow> format_scan kwargs Literal (out @ v) cs)
      else if c = LBRACE then
        Inl (Exn ValueError
               (ascii ''unexpected '' @ [0x27] @ ascii ''{'' @ [0x27] @
                ascii '' in field name''))
      else format_scan kwargs (InField (name @ [c])) out cs)"
| "format_scan kwargs AfterClose out [] =
     Inl (Exn ValueError
            (ascii ''Single '' @ [0x27] @ ascii ''}'' @ [0x27] @
             ascii '' encountered in format string''))"
| "format_scan kwargs AfterClose out (c # cs) =
     (if c = RBRACE then format_scan kwargs Literal (out @ [c]) cs
      else Inl (Exn ValueError
                  (ascii ''Single '' @ [0x27] @ ascii ''}'' @ [0x27] @
                   ascii '' encountered in format string'')))"

definition str_format :: "pystr \<Rightarrow> (pystr \<times> pystr) list \<Rightarrow> exn + pystr" where
  "str_format template kwargs = format_scan kwargs Literal [] template"

text \<open>
  The prompt that \<^verbatim>\<open>chain.run(query=..., consult_type=..., legal_domain=...)\<close> renders
  (lines 181-187).
\<close>

definition render_prompt :: "pystr \<Rightarrow> pystr \<Rightarrow> pystr \<Rightarrow> exn + pystr" where
  "render_prompt query consult_type legal_domain =
     str_format PROMPT_TEMPLATE
       [(ascii ''query'', query),
        (ascii ''consult_type'', consult_type),
        (ascii ''legal_domain'', legal_domain)]"

subsection \<open>The agent (lines 158-208)\<close>

definition ANSWER :: pystr where
  "ANSWER = ascii ''answer''"

definition REFERENCES :: pystr where
  "REFERENCES = ascii ''references''"

definition STEPS :: pystr where
  "STEPS = ascii ''steps''"

definition UNRECOGNISED_REFERENCES :: pystr where
  \<comment> \<open>line 195: <cannot recognise formatted references>\<close>
  "UNRECOGNISED_REFERENCES = [0x65E0, 0x6CD5, 0x8BC6, 0x522B, 0x683C, 0x5F0F, 0x5316, 0x53C2, 0x8003]"

text \<open>
  Lines 189-196, the innermost \<^verbatim>\<open>try\<close>: the decoded value as it is; on
  JSONDecodeError the raw reply as the answer; any other exception goes on to the
  handler of line 197.
\<close>

definition parse_response :: "externals \<Rightarrow> pystr \<Rightarrow> exn + pyval" where
  "parse_response x response =
     (case json_loads x response of
        Inr v \<Rightarrow> Inr v
      | Inl e \<Rightarrow>
          (if exn_class_of e = JSONDecodeError then
             Inr (PyDict
                    [(ANSWER, PyStr response),
                     (REFERENCES, PyList [PyStr UNRECOGNISED_REFERENCES])])
           else Inl e))"

text \<open>Lines 173-196, the body of the middle \<^verbatim>\<open>try\<close>.\<close>

definition call_model ::
    "externals \<Rightarrow> pystr \<Rightarrow> pystr \<Rightarrow> pystr \<Rightarrow> pystr \<Rightarrow> pystr \<Rightarrow>
     (exn + pyval) \<times> event list" where
  "call_model x api_key api_base query consult_type legal_domain =
     (let args = \<lparr>llm_api_key = api_key, llm_base_url = api_base,
                   llm_model = ascii ''gpt-3.5-turbo'', llm_temperature = ascii ''0.2'',
                   llm_max_tokens = 4096\<rparr>
      in case ChatOpenAI x args of
           Some e \<Rightarrow> (Inl e, [])
         | None \<Rightarrow>
             (case render_prompt query consult_type legal_domain of
                Inl e \<Rightarrow> (Inl e, [])
              | Inr prompt \<Rightarrow>
                  (case chain_run x args prompt of
                     Inl e \<Rightarrow> (Inl e, [ChainRun args prompt])
                   | Inr response \<Rightarrow>
                       (parse_response x response, [ChainRun args prompt]))))"

text \<open>The three dicts the agent builds on its failure paths.\<close>

definition MISSING_KEY_RESULT :: pyval where
  \<comment> \<open>lines 166-169: <error: API key not found. please set API_KEY in Streamlit
      Secrets.>; <please add API_KEY in the Streamlit settings>\<close>
  "MISSING_KEY_RESULT =
     PyDict
       [(ANSWER, PyStr ([0x9519, 0x8BEF, 0xFF1A, 0x672A, 0x627E, 0x5230] @ ascii ''API'' @
                        [0x5BC6, 0x94A5, 0x3002, 0x8BF7, 0x5728] @ ascii ''Streamlit Secrets'' @
                        [0x4E2D, 0x8BBE, 0x7F6E] @ ascii ''API_KEY'' @ [0x3002])),
        (REFERENCES, PyList [PyStr ([0x8BF7, 0x5728] @ ascii ''Streamlit'' @
                                    [0x8BBE, 0x7F6E, 0x4E2D, 0x6DFB, 0x52A0] @ ascii ''API_KEY'')])]"

definition connection_error_result :: "exn \<Rightarrow> pyval" where
  \<comment> \<open>lines 198-201: <sorry, cannot connect to the AI service>: str(e);
      <please check your API key and network connection>\<close>
  "connection_error_result e =
     PyDict
       [(ANSWER, PyStr (([0x62B1, 0x6B49, 0xFF0C, 0x65E0, 0x6CD5, 0x8FDE, 0x63A5, 0x5230] @
                         ascii ''AI'' @ [0x670D, 0x52A1, 0xFF1A]) @ str_exn e)),
        (REFERENCES, PyList [PyStr ([0x8BF7, 0x68C0, 0x67E5, 0x60A8, 0x7684] @ ascii ''API'' @
                                    [0x5BC6, 0x94A5, 0x548C, 0x7F51, 0x7EDC, 0x8FDE, 0x63A5])])]"

definition system_error_result :: "exn \<Rightarrow> pyval" where
  \<comment> \<open>lines 205-208: <sorry, a problem occurred while handling your request>:
      str(err) <. please try again later.>; <system error>\<close>
  "system_error_result err =
     PyDict
       [(ANSWER, PyStr (([0x62B1, 0x6B49, 0xFF0C, 0x5904, 0x7406, 0x60A8, 0x7684, 0x8BF7, 0x6C42, 0x65F6] @
                         [0x9047, 0x5230, 0x4E86, 0x95EE, 0x9898, 0xFF1A]) @
                        str_exn err @
                        [0x3002, 0x8BF7, 0x7A0D, 0x540E, 0x518D, 0x8BD5, 0x3002])),
        (REFERENCES, PyList [PyStr [0x7CFB, 0x7EDF, 0x9519, 0x8BEF]])]"

text \<open>
  The function returns \<open>Inr\<close> of its result or \<open>Inl\<close> of an exception it lets through,
  with the events of the call. The handler of line 203 guards the call to
  \<^verbatim>\<open>get_api_credentials\<close>; the handler of line 197 guards the body of the middle
  \<^verbatim>\<open>try\<close>.
\<close>

definition legal_agent ::
    "externals \<Rightarrow> pystr \<Rightarrow> pystr \<Rightarrow> pystr \<Rightarrow> (exn + pyval) \<times> event list" where
  "legal_agent x query consult_type legal_domain =
     (case get_api_credentials x of
        (Inl err, evs) \<Rightarrow>
          (Inr (system_error_result err), evs @ [Print (ascii ''Error: '' @ str_exn err)])
      | (Inr (api_key, api_base), evs) \<Rightarrow>
          (case api_key of
             None \<Rightarrow> (Inr MISSING_KEY_RESULT, evs)
           | Some key \<Rightarrow>
               (if key = [] then (Inr MISSING_KEY_RESULT, evs)
                else
                  (case call_model x key api_base query consult_type legal_domain of
                     (Inr v, evs') \<Rightarrow> (Inr v, evs @ evs')
                   | (Inl e, evs') \<Rightarrow> (Inr (connection_error_result e), evs @ evs')))))"

section \<open>main.py\<close>

subsection \<open>Reading an uploaded document (lines 62-86)\<close>

text \<open>
  Lines 71-72: the loop over the pages, \<open>text\<close> the string built so far. A page whose
  \<^verbatim>\<open>extract_text()\<close> raises ends the loop with that exception.
\<close>

fun extract_pages :: "(exn + pystr) list \<Rightarrow> pystr \<Rightarrow> exn + pystr" where
  "extract_pages [] text = Inr text"
| "extract_pages (page # pages) text =
     (case page of
        Inl e \<Rightarrow> Inl e
      | Inr t \<Rightarrow> extract_pages pages (text @ t))"

text \<open>
  Lines 65-83, the body of the \<^verbatim>\<open>try\<close>. The result is the function's return value
  (\<open>None\<close> for Python's \<^verbatim>\<open>None\<close>) or the exception raised inside the \<^verbatim>\<open>try\<close>.
\<close>

definition document_text ::
    "externals \<Rightarrow> bytes \<Rightarrow> pystr \<Rightarrow> (exn + pystr option) \<times> event list" where
  "document_text x doc_file file_type =
     (if file_type = ascii ''pdf'' then
        (if \<not> PDF_SUPPORT x then
           \<comment> \<open>line 67: <the PyPDF2 library is not installed, PDF files cannot be
               handled. please run> `pip install PyPDF2` <to install it.>\<close>
           (Inr None,
            [StWarning ([0x672A, 0x5B89, 0x88C5] @ ascii ''PyPDF2'' @
                        [0x5E93, 0xFF0C, 0x65E0, 0x6CD5, 0x5904, 0x7406] @ ascii ''PDF'' @
                        [0x6587, 0x4EF6, 0x3002, 0x8BF7, 0x8FD0, 0x884C, 0x20, 0x60] @
                        ascii ''pip install PyPDF2'' @ [0x60, 0x20, 0x5B89, 0x88C5, 0x3002])])
         else
           (case PdfReader x doc_file of
              Inl e \<Rightarrow> (Inl e, [])
            | Inr pages \<Rightarrow>
                (case extract_pages pages [] of
                   Inl e \<Rightarrow> (Inl e, [])
                 | Inr text \<Rightarrow> (Inr (Some text), []))))
      else if file_type = ascii ''docx'' then
        (if \<not> DOCX_SUPPORT x then
           \<comment> \<open>line 76: <the python-docx library is not installed, Word files cannot be
               handled. please run> `pip install python-docx` <to install it.>\<close>
           (Inr None,
            [StWarning ([0x672A, 0x5B89, 0x88C5] @ ascii ''python-docx'' @
                        [0x5E93, 0xFF0C, 0x65E0, 0x6CD5, 0x5904, 0x7406] @ ascii ''Word'' @
                        [0x6587, 0x4EF6, 0x3002, 0x8BF7, 0x8FD0, 0x884C, 0x20, 0x60] @
                        ascii ''pip install python-docx'' @ [0x60, 0x20, 0x5B89, 0x88C5, 0x3002])])
         else
           (case docx_Document x doc_file of
              Inl e \<Rightarrow> (Inl e, [])
            | Inr paragraphs \<Rightarrow> (Inr (Some (join [0xA] paragraphs)), [])))
      else if file_type = ascii ''txt'' then
        (case decode_utf8 x doc_file of
           Inl e \<Rightarrow> (Inl e, [])
         | Inr text \<Rightarrow> (Inr (Some text), []))
      else (Inr None, []))"

text \<open>The whole function: the handler of lines 84-86 turns an exception into \<^verbatim>\<open>None\<close>.\<close>

definition display_document_content ::
    "externals \<Rightarrow> bytes \<Rightarrow> pystr \<Rightarrow> (exn + pystr option) \<times> event list" where
  "display_document_content x doc_file file_type =
     (case document_text x doc_file file_type of
        (Inr r, evs) \<Rightarrow> (Inr r, evs)
      | (Inl e, evs) \<Rightarrow>
          \<comment> \<open>line 85: <file parsing error>: str(e)\<close>
          (Inr None, evs @ [StError (([0x6587, 0x4EF6, 0x89E3, 0x6790, 0x9519, 0x8BEF] @
                                      ascii '': '') @ str_exn e)]))"

subsection \<open>The session and its history (lines 94-106, 131-134, 169-174, 345-348)\<close>

text \<open>
  An entry of \<^verbatim>\<open>chat_history\<close>: the dict appended at lines 169-174, 245-251 and
  304-310. The keys \<^verbatim>\<open>document\<close> and \<^verbatim>\<open>case_details\<close> are present in the entries of one
  tab only.
\<close>

record history_entry =
  entry_type :: pystr
  entry_query :: pystr
  entry_result :: pyval
  entry_timestamp :: pystr
  entry_document :: "pystr option"
  entry_case_details :: "pystr option"

text \<open>
  \<^verbatim>\<open>st.session_state\<close> when the script starts: a key is \<open>None\<close> when it is not in the
  session yet.
\<close>

record session_keys =
  key_chat_history :: "history_entry list option"
  key_doc_content :: "pystr option option"
  key_consultation_results :: "pyval list option"
  key_legal_domain :: "pystr option"

text \<open>\<^verbatim>\<open>st.session_state\<close> after \<^verbatim>\<open>init_session_state()\<close>.\<close>

record session_state =
  chat_history :: "history_entry list"
  doc_content :: "pystr option"
  consultation_results :: "pyval list"
  legal_domain :: pystr

definition new_session :: session_keys where
  "new_session =
     \<lparr>key_chat_history = None, key_doc_content = None,
      key_consultation_results = None, key_legal_domain = None\<rparr>"

text \<open>Lines 94-103: each key keeps its value, a missing key gets its initial value.\<close>

definition init_session_state :: "session_keys \<Rightarrow> session_state" where
  "init_session_state s =
     \<lparr>chat_history = (case key_chat_history s of None \<Rightarrow> [] | Some h \<Rightarrow> h),
      doc_content = (case key_doc_content s of None \<Rightarrow> None | Some d \<Rightarrow> d),
      consultation_results = (case key_consultation_results s of None \<Rightarrow> [] | Some r \<Rightarrow> r),
      legal_domain = (case key_legal_domain s of None \<Rightarrow> DEFAULT_DOMAIN | Some d \<Rightarrow> d)\<rparr>"

text \<open>Lines 169, 245, 304: \<^verbatim>\<open>st.session_state.chat_history.append(entry)\<close>.\<close>

definition append_history :: "session_state \<Rightarrow> history_entry \<Rightarrow> session_state" where
  "append_history s entry = s\<lparr>chat_history := chat_history s @ [entry]\<rparr>"

text \<open>Lines 131-134: the button that clears the history.\<close>

definition clear_history :: "session_state \<Rightarrow> session_state" where
  "clear_history s = s\<lparr>chat_history := [], consultation_results := []\<rparr>"

text \<open>
  Lines 345-348: the entries the history section shows, in the order it shows them,
  \<^verbatim>\<open>reversed(st.session_state.chat_history[-5:])\<close>; nothing is shown for an empty
  history. The expression builds a new list and leaves the session as it is.
\<close>

definition shown_history :: "session_state \<Rightarrow> history_entry list" where
  "shown_history s =
     (if chat_history s \<noteq> [] then rev (slice_from (-5) (chat_history s)) else [])"

subsection \<open>The reports (lines 186-197, 263-273, 327-341)\<close>






text \<open>The consultation types, as the three tabs pass them to \<^verbatim>\<open>legal_agent\<close>.\<close>

definition BASIC_INFO :: pystr where
  \<comment> \<open>lines 165, 170: basic legal information\<close>
  "BASIC_INFO = [0x57FA, 0x672C, 0x6CD5, 0x5F8B, 0x4FE1, 0x606F]"

definition DOCUMENT_INTERPRETATION :: pystr where
  \<comment> \<open>lines 241, 246: legal document interpretation\<close>
  "DOCUMENT_INTERPRETATION = [0x6CD5, 0x5F8B, 0x6587, 0x4EF6, 0x89E3, 0x8BFB]"

definition CASE_STRATEGY :: pystr where
  \<comment> \<open>lines 300, 305: case research and strategy\<close>
  "CASE_STRATEGY = [0x6848, 0x4EF6, 0x7814, 0x7A76, 0x4E0E, 0x7B56, 0x7565]"

















text \<open>
  The three reports are f-strings; their replacement fields are evaluated from left to
  right, and the first one that raises ends the evaluation. Each line of the source
  is a line below; \<open>[0xA]\<close> is the end of a line.
\<close>




section \<open>Notions the properties use\<close>

subsection \<open>Results with a textual answer\<close>



text \<open>The phrase of line 167 that says that the key is missing: <API key not found>.\<close>

definition KEY_NOT_FOUND :: pystr where
  "KEY_NOT_FOUND = ([0x672A, 0x627E, 0x5230] @ ascii ''API'' @ [0x5BC6, 0x94A5])"

subsection \<open>The rendered prompt\<close>

text \<open>
  A response shape as the template writes it: a JSON object whose members are a text
  or a list of texts, rendered \<^verbatim>\<open>{"key": "text", "key": ["text", "text"]}\<close>.
\<close>

datatype shape_member = Text pystr | TextList "pystr list"

definition quoted :: "pystr \<Rightarrow> pystr" where
  "quoted s = [0x22] @ s @ [0x22]"

fun render_member :: "shape_member \<Rightarrow> pystr" where
  "render_member (Text t) = quoted t"
| "render_member (TextList ts) = ascii ''['' @ join (ascii '', '') (map quoted ts) @ ascii '']''"

definition render_shape :: "(pystr \<times> shape_member) list \<Rightarrow> pystr" where
  "render_shape members =
     ascii ''{'' @
     join (ascii '', '') (map (\<lambda>(key, m). quoted key @ ascii '': '' @ render_member m) members) @
     ascii ''}''"

text \<open>
  A section of the prompt that names the shape for a consultation type: the heading
  \<open><for> type:\<close> and the shape on the next line.
\<close>

definition FOR :: pystr where
  \<comment> \<open>lines 113, 116, 119: <for>\<close>
  "FOR = [0x5BF9, 0x4E8E]"

definition shape_section :: "pystr \<Rightarrow> (pystr \<times> shape_member) list \<Rightarrow> pystr" where
  "shape_section consult_type members =
     FOR @ consult_type @ ascii '':'' @ [0xA] @ render_shape members @ [0xA]"

definition BASIC_INFO_SHAPE :: "(pystr \<times> shape_member) list" where
  \<comment> \<open>line 114: <detailed legal explanation and information>; <legal provision 1>,
      <legal provision 2>\<close>
  "BASIC_INFO_SHAPE =
     [(ANSWER, Text [0x8BE6, 0x7EC6, 0x7684, 0x6CD5, 0x5F8B, 0x89E3, 0x91CA, 0x548C, 0x4FE1, 0x606F]),
      (REFERENCES, TextList [[0x76F8, 0x5173, 0x6CD5, 0x5F8B, 0x6761, 0x6B3E, 0x31], [0x76F8, 0x5173, 0x6CD5, 0x5F8B, 0x6761, 0x6B3E, 0x32]])]"

definition DOCUMENT_SHAPE :: "(pystr \<times> shape_member) list" where
  \<comment> \<open>line 117: <explanation and analysis of the document>; <legal basis 1>,
      <legal basis 2>\<close>
  "DOCUMENT_SHAPE =
     [(ANSWER, Text [0x5BF9, 0x6587, 0x4EF6, 0x7684, 0x89E3, 0x91CA, 0x548C, 0x5206, 0x6790]),
      (REFERENCES, TextList [[0x76F8, 0x5173, 0x6CD5, 0x5F8B, 0x4F9D, 0x636E, 0x31], [0x76F8, 0x5173, 0x6CD5, 0x5F8B, 0x4F9D, 0x636E, 0x32]])]"

definition CASE_SHAPE :: "(pystr \<times> shape_member) list" where
  \<comment> \<open>line 120: <analysis of the case>; <suggested step 1>, <suggested step 2>;
      <related case 1>, <related case 2>\<close>
  "CASE_SHAPE =
     [(ANSWER, Text [0x5BF9, 0x6848, 0x4EF6, 0x7684, 0x5206, 0x6790]),
      (STEPS, TextList [[0x5EFA, 0x8BAE, 0x6B65, 0x9AA4, 0x31], [0x5EFA, 0x8BAE, 0x6B65, 0x9AA4, 0x32]]),
      (REFERENCES, TextList [[0x76F8, 0x5173, 0x6CD5, 0x5F8B, 0x6848, 0x4F8B, 0x31], [0x76F8, 0x5173, 0x6CD5, 0x5F8B, 0x6848, 0x4F8B, 0x32]])]"

definition PROMPT_INTRO :: pystr where
  \<comment> \<open>lines 100-107 of the template, which have no replacement field\<close>
  "PROMPT_INTRO =
     ([0x4F60, 0x662F, 0x4E00, 0x4F4D, 0x4E13, 0x4E1A, 0x7684, 0x6CD5, 0x5F8B, 0x987E] @
      [0x95EE, 0xFF0C, 0x8BF7, 0x6839, 0x636E, 0x7528, 0x6237, 0x7684, 0x95EE, 0x9898] @
      [0x63D0, 0x4F9B, 0x51C6, 0x786E, 0x3001, 0x5BA2, 0x89C2, 0x7684, 0x6CD5, 0x5F8B] @
      [0x4FE1, 0x606F, 0x548C, 0x5EFA, 0x8BAE, 0x3002, 0xA]) @
     [0xA] @
     ([0x8BF7, 0x6CE8, 0x610F, 0xFF0C, 0x4F60, 0x7684, 0x56DE, 0x7B54, 0x5E94, 0x5F53] @
      [0xFF1A, 0xA]) @
     (ascii ''1. '' @
      [0x57FA, 0x4E8E, 0x4E2D, 0x56FD, 0x73B0, 0x884C, 0x6CD5, 0x5F8B, 0x6CD5, 0x89C4] @
      [0xFF0C, 0x907F, 0x514D, 0x7ED9, 0x51FA, 0x53EF, 0x80FD, 0x8BEF, 0x5BFC, 0x7528] @
      [0x6237, 0x7684, 0x4E2A, 0x4EBA, 0x89C1, 0x89E3, 0xA]) @
     (ascii ''2. '' @
      [0x660E, 0x786E, 0x6307, 0x51FA, 0x6CD5, 0x5F8B, 0x7684, 0x5C40, 0x9650, 0x6027] @
      [0x548C, 0x4E0D, 0x786E, 0x5B9A, 0x6027, 0xA]) @
     (ascii ''3. '' @
      [0x63D0, 0x9192, 0x7528, 0x6237, 0x5728, 0x91CD, 0x8981, 0x6CD5, 0x5F8B, 0x4E8B] @
      [0x52A1, 0x4E0A, 0x54A8, 0x8BE2, 0x4E13, 0x4E1A, 0x5F8B, 0x5E08, 0xA]) @
     (ascii ''4. '' @
      [0x63D0, 0x4F9B, 0x6E05, 0x6670, 0x3001, 0x7ED3, 0x6784, 0x5316, 0x7684, 0x56DE] @
      [0x7B54, 0xA]) @
     [0xA]"

definition CURRENT_TYPE :: pystr where
  \<comment> \<open>line 108: <current consultation type>\<close>
  "CURRENT_TYPE = ([0x5F53, 0x524D, 0x54A8, 0x8BE2, 0x7C7B, 0x578B] @ ascii '': '')"

definition PROMPT_DOMAIN :: pystr where
  \<comment> \<open>line 109: <legal domain>\<close>
  "PROMPT_DOMAIN = ([0x6CD5, 0x5F8B, 0x9886, 0x57DF] @ ascii '': '')"

definition RESPOND_IN_JSON :: pystr where
  \<comment> \<open>line 111: <please respond in the following JSON format>\<close>
  "RESPOND_IN_JSON = ([0x8BF7, 0x6309, 0x7167, 0x4EE5, 0x4E0B] @ ascii ''JSON'' @
                      [0x683C, 0x5F0F, 0x56DE, 0x5E94, 0x3A, 0xA])"

definition USER_QUESTION :: pystr where
  \<comment> \<open>line 122: <user question>\<close>
  "USER_QUESTION = ([0x7528, 0x6237, 0x95EE, 0x9898] @ ascii '': '')"

text \<open>The text the template renders to, piece by piece.\<close>

definition rendered_prompt :: "pystr \<Rightarrow> pystr \<Rightarrow> pystr \<Rightarrow> pystr" where
  "rendered_prompt query consult_type domain =
     PROMPT_INTRO @
     CURRENT_TYPE @ consult_type @ [0xA] @
     PROMPT_DOMAIN @ domain @ [0xA] @
     [0xA] @
     RESPOND_IN_JSON @
     [0xA] @
     shape_section BASIC_INFO BASIC_INFO_SHAPE @
     [0xA] @
     shape_section DOCUMENT_INTERPRETATION DOCUMENT_SHAPE @
     [0xA] @
     shape_section CASE_STRATEGY CASE_SHAPE @
     [0xA] @
     USER_QUESTION @ query @ [0xA]"

subsection \<open>Texts that occur in a given order\<close>




subsection \<open>Concrete worlds\<close>

text \<open>
  Worlds for the concrete instances below. In \<open>no_credentials\<close> the secrets store has
  no entry and the environment has no variable.
\<close>

definition no_credentials :: externals where
  "no_credentials =
     \<lparr>st_secrets = (\<lambda>name. Inl (Exn KeyError ([0x27] @ name @ [0x27]))),
      load_dotenv = None,
      os_getenv = (\<lambda>name. None),
      ChatOpenAI = (\<lambda>args. None),
      chain_run = (\<lambda>args prompt. Inl (Exn OtherException (ascii ''Connection error.''))),
      json_loads = (\<lambda>text. Inl (Exn JSONDecodeError (ascii ''Expecting value''))),
      builtin_str = (\<lambda>v. type_name v),
      PDF_SUPPORT = True,
      DOCX_SUPPORT = True,
      PdfReader = (\<lambda>b. Inr []),
      docx_Document = (\<lambda>b. Inr []),
      decode_utf8 = (\<lambda>b. Inr [])\<rparr>"

text \<open>
  In \<open>replying reply decoded\<close> the secrets store holds a key, the model answers \<open>reply\<close>
  to every prompt, and \<^verbatim>\<open>json.loads\<close> does \<open>decoded\<close> on that reply.
\<close>

definition replying :: "pystr \<Rightarrow> exn + pyval \<Rightarrow> externals" where
  "replying reply decoded =
     no_credentials
       \<lparr>st_secrets := (\<lambda>name. if name = API_KEY then Inr (ascii ''sk-test'')
                                else Inl (Exn KeyError ([0x27] @ name @ [0x27]))),
        chain_run := (\<lambda>args prompt. Inr reply),
        json_loads := (\<lambda>text. if text = reply then decoded
                                else Inl (Exn JSONDecodeError (ascii ''Expecting value'')))\<rparr>"

text \<open>
  In \<open>env_override\<close> the secrets store has no entry, and the environment holds a key
  and a base URL of its own. In \<open>empty_secret\<close> the secrets store holds an empty
  \<^verbatim>\<open>API_KEY\<close>.
\<close>

definition EXAMPLE_BASE :: pystr where
  "EXAMPLE_BASE = ascii ''https://example.com/v1''"

definition env_override :: externals where
  "env_override =
     no_credentials
       \<lparr>os_getenv := (\<lambda>name. if name = OPENAI_API_KEY then Some (ascii ''sk-test'')
                               else if name = OPENAI_API_BASE then Some EXAMPLE_BASE
                               else None)\<rparr>"

definition empty_secret :: externals where
  "empty_secret =
     no_credentials
       \<lparr>st_secrets := (\<lambda>name. if name = API_KEY then Inr []
                                else Inl (Exn KeyError ([0x27] @ name @ [0x27])))\<rparr>"







text \<open>A world where decoding the bytes of a file as UTF-8 raises.\<close>

definition undecodable :: externals where
  "undecodable =
     no_credentials
       \<lparr>decode_utf8 := (\<lambda>b. Inl (Exn UnicodeDecodeError (ascii ''invalid start byte'')))\<rparr>"





definition LABOUR_LAW :: pystr where
  \<comment> \<open>line 16: <labour law>\<close>
  "LABOUR_LAW = [0x52B3, 0x52A8, 0x6CD5]"

definition sample_question :: pystr where
  \<comment> \<open>line 39: <is there compensation for dismissal during probation?>\<close>
  "sample_question = ([0x8BD5, 0x7528, 0x671F, 0x88AB, 0x8F9E, 0x9000, 0x662F, 0x5426, 0x6709, 0x8D54] @
                      [0x507F, 0xFF1F])"








section \<open>The catalog of sample questions\<close>

lemma sample_questions_nonempty:
  "map_of SAMPLE_QUESTIONS d = Some qs \<Longrightarrow> qs \<noteq> []"
  by (auto simp: SAMPLE_QUESTIONS_def split: if_splits)

lemma default_domain_in_catalog:
  "\<exists>qs. dict_index SAMPLE_QUESTIONS DEFAULT_DOMAIN = Inr qs \<and> qs \<noteq> []"
  by (simp add: dict_index_def SAMPLE_QUESTIONS_def DEFAULT_DOMAIN_def)

text \<open>
  Claim C9. \<^verbatim>\<open>get_sample_questions\<close> is total and never returns an empty list: for every
  domain string it returns a non-empty list of questions without raising. For a domain
  that is not a key of \<^verbatim>\<open>SAMPLE_QUESTIONS\<close> (the empty string included) the list is the
  one of the default domain, \<^verbatim>\<open>SAMPLE_QUESTIONS[DEFAULT_DOMAIN]\<close>.
\<close>

theorem get_sample_questions_default:
  "(\<exists>qs. get_sample_questions domain = Inr qs \<and> qs \<noteq> []) \<and>
   (domain \<notin> fst ` set SAMPLE_QUESTIONS \<longrightarrow>
      (\<exists>dflt. dict_index SAMPLE_QUESTIONS DEFAULT_DOMAIN = Inr dflt \<and>
              get_sample_questions domain = Inr dflt))"
proof -
  obtain dflt where d: "dict_index SAMPLE_QUESTIONS DEFAULT_DOMAIN = Inr dflt" "dflt \<noteq> []"
    using default_domain_in_catalog by blast
  have g: "get_sample_questions domain = Inr (dict_get SAMPLE_QUESTIONS domain dflt)"
    by (simp add: get_sample_questions_def d)
  have ne: "dict_get SAMPLE_QUESTIONS domain dflt \<noteq> []"
  proof (cases "map_of SAMPLE_QUESTIONS domain")
    case None
    then show ?thesis by (simp add: dict_get_def d)
  next
    case (Some qs)
    then show ?thesis using sample_questions_nonempty [OF Some] by (simp add: dict_get_def)
  qed
  have miss: "domain \<notin> fst ` set SAMPLE_QUESTIONS \<Longrightarrow>
      dict_get SAMPLE_QUESTIONS domain dflt = dflt"
    using map_of_eq_None_iff [of SAMPLE_QUESTIONS domain] by (simp add: dict_get_def)
  show ?thesis using g ne miss d by auto
qed

text \<open>
  The empty string is not a domain of the catalog, and it gets the three questions of
  the default domain (lines 33-35).
\<close>

theorem get_sample_questions_default_witness:
  "[] \<notin> fst ` set SAMPLE_QUESTIONS \<and>
   get_sample_questions [] = Inr
     [([0x5982, 0x4F55, 0x67E5, 0x8BE2, 0x67D0, 0x9879, 0x6CD5, 0x5F8B, 0x6CD5, 0x89C4] @
       [0x7684, 0x6700, 0x65B0, 0x7248, 0x672C, 0xFF1F]),
      ([0x6211, 0x9700, 0x8981, 0x6CD5, 0x5F8B, 0x63F4, 0x52A9, 0xFF0C, 0x5E94, 0x8BE5] @
       [0x5982, 0x4F55, 0x7533, 0x8BF7, 0xFF1F]),
      [0x4EC0, 0x4E48, 0x60C5, 0x51B5, 0x4E0B, 0x9700, 0x8981, 0x516C, 0x8BC1, 0xFF1F]]"
proof -
  have a: "[] \<notin> fst ` set SAMPLE_QUESTIONS"
    by (simp add: SAMPLE_QUESTIONS_def)
  have b: "dict_index SAMPLE_QUESTIONS DEFAULT_DOMAIN = Inr
     [([0x5982, 0x4F55, 0x67E5, 0x8BE2, 0x67D0, 0x9879, 0x6CD5, 0x5F8B, 0x6CD5, 0x89C4] @
       [0x7684, 0x6700, 0x65B0, 0x7248, 0x672C, 0xFF1F]),
      ([0x6211, 0x9700, 0x8981, 0x6CD5, 0x5F8B, 0x63F4, 0x52A9, 0xFF0C, 0x5E94, 0x8BE5] @
       [0x5982, 0x4F55, 0x7533, 0x8BF7, 0xFF1F]),
      [0x4EC0, 0x4E48, 0x60C5, 0x51B5, 0x4E0B, 0x9700, 0x8981, 0x516C, 0x8BC1, 0xFF1F]]"
    by (simp add: dict_index_def SAMPLE_QUESTIONS_def DEFAULT_DOMAIN_def)
  from get_sample_questions_default [of "[]"] a b show ?thesis by auto
qed

section \<open>Credentials\<close>

lemma get_api_credentials_returns:
  "\<exists>api_key api_base evs.
     get_api_credentials x = (Inr (api_key, api_base), evs) \<and> filter is_chain_run evs = []"
  by (auto simp: get_api_credentials_def split: sum.splits option.splits)

lemma env_credentials_none:
  "load_dotenv x \<noteq> None \<or> \<not> truthy (os_getenv x OPENAI_API_KEY) \<Longrightarrow> env_credentials x = None"
  by (cases "os_getenv x OPENAI_API_KEY") (auto simp: env_credentials_def Let_def split: option.splits)

text \<open>
  Claim C10, as amended. When the lookup in the secrets store raises and the fallback
  finds no key in the environment (loading it raises, or \<^verbatim>\<open>OPENAI_API_KEY\<close> is unset
  or empty), \<^verbatim>\<open>get_api_credentials\<close> returns the key \<^verbatim>\<open>None\<close> with the base URL
  \<^verbatim>\<open>https://api.openai.com/v1\<close>, after showing one error message. That URL is not the
  default base URL \<^verbatim>\<open>https://twapi.openai-hk.com/v1\<close>. A successful resolution returns
  the default on the secrets path, where the stored key is returned as it is, and on
  the environment path it returns the value of \<^verbatim>\<open>OPENAI_API_BASE\<close> when that variable is
  set, the default otherwise.
\<close>

theorem get_api_credentials_no_key:
  assumes "st_secrets x API_KEY = Inl e"
    and "load_dotenv x \<noteq> None \<or> \<not> truthy (os_getenv x OPENAI_API_KEY)"
  shows "get_api_credentials x =
           (Inr (None, OPENAI_BASE), [StError (CREDENTIALS_ERROR @ str_exn e)]) \<and>
         OPENAI_BASE \<noteq> TWAPI_BASE \<and>
         (\<forall>y k. st_secrets y API_KEY = Inr k \<longrightarrow>
            get_api_credentials y = (Inr (Some k, TWAPI_BASE), [])) \<and>
         (\<forall>y key base. fst (get_api_credentials y) = Inr (Some key, base) \<longrightarrow>
            base = (case st_secrets y API_KEY of
                      Inr k \<Rightarrow> TWAPI_BASE
                    | Inl e' \<Rightarrow>
                        (case os_getenv y OPENAI_API_BASE of
                           None \<Rightarrow> TWAPI_BASE
                         | Some b \<Rightarrow> b)))"
proof -
  have a: "get_api_credentials x =
      (Inr (None, OPENAI_BASE), [StError (CREDENTIALS_ERROR @ str_exn e)])"
    using assms env_credentials_none [of x] by (simp add: get_api_credentials_def)
  have b: "OPENAI_BASE \<noteq> TWAPI_BASE"
    by (simp add: OPENAI_BASE_def TWAPI_BASE_def ascii_def)
  have s: "get_api_credentials y = (Inr (Some k, TWAPI_BASE), [])"
    if "st_secrets y API_KEY = Inr k" for y k
    using that by (simp add: get_api_credentials_def)
  have c: "base = (case st_secrets y API_KEY of
                     Inr k \<Rightarrow> TWAPI_BASE
                   | Inl e' \<Rightarrow>
                       (case os_getenv y OPENAI_API_BASE of
                          None \<Rightarrow> TWAPI_BASE
                        | Some b \<Rightarrow> b))"
    if "fst (get_api_credentials y) = Inr (Some key, base)" for y key base
    using that
    by (auto simp: get_api_credentials_def env_credentials_def Let_def
        split: sum.splits option.splits if_splits)
  show ?thesis using a b s c by blast
qed

text \<open>
  A world with no credentials at all; a world with a key in the secrets store, where the
  resolution gives the default base URL; and a world where the environment sets the
  base URL.
\<close>

theorem get_api_credentials_no_key_witness:
  "st_secrets no_credentials API_KEY = Inl (Exn KeyError ([0x27] @ API_KEY @ [0x27])) \<and>
   \<not> truthy (os_getenv no_credentials OPENAI_API_KEY) \<and>
   get_api_credentials no_credentials =
     (Inr (None, OPENAI_BASE), [StError (CREDENTIALS_ERROR @ [0x27] @ API_KEY @ [0x27])]) \<and>
   OPENAI_BASE \<noteq> TWAPI_BASE \<and>
   get_api_credentials (replying [] (Inr PyNone)) = (Inr (Some (ascii ''sk-test''), TWAPI_BASE), []) \<and>
   fst (get_api_credentials env_override) = Inr (Some (ascii ''sk-test''), EXAMPLE_BASE)"
proof -
  have h1: "st_secrets no_credentials API_KEY = Inl (Exn KeyError ([0x27] @ API_KEY @ [0x27]))"
    by (simp add: no_credentials_def)
  have h2: "load_dotenv no_credentials \<noteq> None \<or> \<not> truthy (os_getenv no_credentials OPENAI_API_KEY)"
    by (simp add: no_credentials_def)
  have h3: "st_secrets (replying [] (Inr PyNone)) API_KEY = Inr (ascii ''sk-test'')"
    by (simp add: replying_def no_credentials_def)
  have h4: "fst (get_api_credentials env_override) = Inr (Some (ascii ''sk-test''), EXAMPLE_BASE)"
    by (simp add: get_api_credentials_def env_credentials_def env_override_def
        no_credentials_def OPENAI_API_KEY_def OPENAI_API_BASE_def ascii_def)
  from get_api_credentials_no_key [OF h1 h2] h1 h3 h4 show ?thesis
    by (simp add: no_credentials_def)
qed

text \<open>
  Claim C10 as stated fails: the default base URL is not what every successful
  resolution returns. When the lookup in the secrets store raises and the environment
  holds \<^verbatim>\<open>OPENAI_API_KEY\<close> and \<^verbatim>\<open>OPENAI_API_BASE = https://example.com/v1\<close>, the resolution
  succeeds with that base URL (lines 148 and 151). And a secrets store that holds an
  empty \<^verbatim>\<open>API_KEY\<close> yields no usable key, yet the function returns the empty key with the
  default base URL (line 140), not \<^verbatim>\<open>None\<close> with \<^verbatim>\<open>https://api.openai.com/v1\<close>.
\<close>

theorem get_api_credentials_base_counterexample:
  "get_api_credentials env_override = (Inr (Some (ascii ''sk-test''), EXAMPLE_BASE), []) \<and>
   EXAMPLE_BASE \<noteq> TWAPI_BASE \<and>
   get_api_credentials empty_secret = (Inr (Some [], TWAPI_BASE), []) \<and>
   \<not> truthy (Some [])"
  by (simp add: get_api_credentials_def env_credentials_def env_override_def empty_secret_def
      no_credentials_def EXAMPLE_BASE_def TWAPI_BASE_def API_KEY_def OPENAI_API_KEY_def
      OPENAI_API_BASE_def ascii_def)

section \<open>The prompt\<close>

lemma render_prompt_eq:
  "render_prompt query consult_type domain = Inr (rendered_prompt query consult_type domain)"
  by (simp add: render_prompt_def str_format_def PROMPT_TEMPLATE_def ascii_def
      LBRACE_def RBRACE_def lookup_field_def dict_index_def is_digit_def
      rendered_prompt_def PROMPT_INTRO_def CURRENT_TYPE_def PROMPT_DOMAIN_def
      RESPOND_IN_JSON_def USER_QUESTION_def FOR_def shape_section_def render_shape_def quoted_def
      BASIC_INFO_SHAPE_def DOCUMENT_SHAPE_def CASE_SHAPE_def BASIC_INFO_def
      DOCUMENT_INTERPRETATION_def CASE_STRATEGY_def ANSWER_def REFERENCES_def STEPS_def)

lemma sublist_in_right: "sublist xs ys \<Longrightarrow> sublist xs (ps @ ys)"
  by (metis append.assoc sublist_def)

text \<open>
  Claim C4. For every query, consultation type and legal domain the template renders
  (the formatting does not raise), and the rendered prompt contains the query and the
  legal domain as they are, states the current consultation type, and names the
  response shape of each consultation type under the heading of that type: for basic
  legal information and for document interpretation an object with the members
  \<^verbatim>\<open>answer\<close> (a text) and \<^verbatim>\<open>references\<close> (a list), for case strategy an object with the
  members \<^verbatim>\<open>answer\<close>, \<^verbatim>\<open>steps\<close> (a list) and \<^verbatim>\<open>references\<close> (a list).
\<close>

theorem render_prompt_contents:
  "\<exists>prompt. render_prompt query consult_type domain = Inr prompt \<and>
     sublist query prompt \<and>
     sublist domain prompt \<and>
     sublist (CURRENT_TYPE @ consult_type @ [0xA]) prompt \<and>
     (\<exists>a r1 r2. sublist (shape_section BASIC_INFO
                   [(ANSWER, Text a), (REFERENCES, TextList [r1, r2])]) prompt) \<and>
     (\<exists>a r1 r2. sublist (shape_section DOCUMENT_INTERPRETATION
                   [(ANSWER, Text a), (REFERENCES, TextList [r1, r2])]) prompt) \<and>
     (\<exists>a s1 s2 r1 r2. sublist (shape_section CASE_STRATEGY
                   [(ANSWER, Text a), (STEPS, TextList [s1, s2]),
                    (REFERENCES, TextList [r1, r2])]) prompt)"
proof -
  let ?p = "rendered_prompt query consult_type domain"
  have q: "sublist query ?p"
    unfolding rendered_prompt_def
    by (fast intro: sublist_in_right)
  have d: "sublist domain ?p"
    unfolding rendered_prompt_def
    by (fast intro: sublist_in_right)
  have t: "sublist (CURRENT_TYPE @ consult_type @ [0xA]) ?p"
  proof -
    have "?p = PROMPT_INTRO @ (CURRENT_TYPE @ consult_type @ [0xA]) @
        (PROMPT_DOMAIN @ domain @ [0xA] @ [0xA] @ RESPOND_IN_JSON @ [0xA] @
         shape_section BASIC_INFO BASIC_INFO_SHAPE @ [0xA] @
         shape_section DOCUMENT_INTERPRETATION DOCUMENT_SHAPE @ [0xA] @
         shape_section CASE_STRATEGY CASE_SHAPE @ [0xA] @
         USER_QUESTION @ query @ [0xA])"
      by (simp add: rendered_prompt_def)
    then show ?thesis
      by (metis sublist_appendI)
  qed
  have s1: "sublist (shape_section BASIC_INFO BASIC_INFO_SHAPE) ?p"
    unfolding rendered_prompt_def
    by (fast intro: sublist_in_right)
  have s2: "sublist (shape_section DOCUMENT_INTERPRETATION DOCUMENT_SHAPE) ?p"
    unfolding rendered_prompt_def
    by (fast intro: sublist_in_right)
  have s3: "sublist (shape_section CASE_STRATEGY CASE_SHAPE) ?p"
    unfolding rendered_prompt_def
    by (fast intro: sublist_in_right)
  from s1 have s1': "\<exists>a r1 r2. sublist (shape_section BASIC_INFO
      [(ANSWER, Text a), (REFERENCES, TextList [r1, r2])]) ?p"
    unfolding BASIC_INFO_SHAPE_def by blast
  from s2 have s2': "\<exists>a r1 r2. sublist (shape_section DOCUMENT_INTERPRETATION
      [(ANSWER, Text a), (REFERENCES, TextList [r1, r2])]) ?p"
    unfolding DOCUMENT_SHAPE_def by blast
  from s3 have s3': "\<exists>a s1 s2 r1 r2. sublist (shape_section CASE_STRATEGY
      [(ANSWER, Text a), (STEPS, TextList [s1, s2]), (REFERENCES, TextList [r1, r2])]) ?p"
    unfolding CASE_SHAPE_def by blast
  show ?thesis
    using render_prompt_eq [of query consult_type domain] q d t s1' s2' s3' by blast
qed

section \<open>The agent\<close>











text \<open>
  Claim C5. When the resolution of the credentials gives no usable key (\<^verbatim>\<open>None\<close>, or an
  empty string), \<^verbatim>\<open>legal_agent\<close> returns the dict of lines 166-169, whose \<^verbatim>\<open>answer\<close>
  contains the phrase <API key not found>, and the only events of the call are those of
  the resolution itself: no call to the model is among them.
\<close>

theorem legal_agent_missing_key:
  assumes "get_api_credentials x = (Inr (api_key, api_base), evs)"
    and "\<not> truthy api_key"
  shows "legal_agent x query consult_type domain = (Inr MISSING_KEY_RESULT, evs) \<and>
         (\<exists>answer. py_get MISSING_KEY_RESULT ANSWER (PyStr []) = Inr (PyStr answer) \<and>
            sublist KEY_NOT_FOUND answer) \<and>
         filter is_chain_run evs = []"
proof -
  have a: "legal_agent x query consult_type domain = (Inr MISSING_KEY_RESULT, evs)"
    using assms by (cases api_key) (simp_all add: legal_agent_def)
  have "py_get MISSING_KEY_RESULT ANSWER (PyStr []) =
      Inr (PyStr ([0x9519, 0x8BEF, 0xFF1A] @ KEY_NOT_FOUND @ ([0x3002, 0x8BF7, 0x5728] @
                                             ascii ''Streamlit Secrets'' @
                                             [0x4E2D, 0x8BBE, 0x7F6E] @ ascii ''API_KEY'' @
                                             [0x3002])))"
    by (simp add: py_get_def dict_get_def MISSING_KEY_RESULT_def KEY_NOT_FOUND_def
        ANSWER_def ascii_def)
  moreover have "sublist KEY_NOT_FOUND
      ([0x9519, 0x8BEF, 0xFF1A] @ KEY_NOT_FOUND @ ([0x3002, 0x8BF7, 0x5728] @ ascii ''Streamlit Secrets'' @
                                  [0x4E2D, 0x8BBE, 0x7F6E] @ ascii ''API_KEY'' @ [0x3002]))"
    by (rule sublist_appendI)
  ultimately have b: "\<exists>answer. py_get MISSING_KEY_RESULT ANSWER (PyStr []) = Inr (PyStr answer) \<and>
      sublist KEY_NOT_FOUND answer"
    by blast
  have c: "filter is_chain_run evs = []"
    using get_api_credentials_returns [of x] assms(1) by auto
  show ?thesis using a b c by blast
qed

text \<open>In the world with no credentials the only event is the message of line 155.\<close>

theorem legal_agent_missing_key_witness:
  "get_api_credentials no_credentials =
     (Inr (None, OPENAI_BASE), [StError (CREDENTIALS_ERROR @ [0x27] @ API_KEY @ [0x27])]) \<and>
   \<not> truthy None \<and>
   legal_agent no_credentials sample_question BASIC_INFO LABOUR_LAW =
     (Inr MISSING_KEY_RESULT, [StError (CREDENTIALS_ERROR @ [0x27] @ API_KEY @ [0x27])]) \<and>
   filter is_chain_run [StError (CREDENTIALS_ERROR @ [0x27] @ API_KEY @ [0x27])] = []"
proof -
  have h1: "get_api_credentials no_credentials =
      (Inr (None, OPENAI_BASE), [StError (CREDENTIALS_ERROR @ [0x27] @ API_KEY @ [0x27])])"
    by (simp add: get_api_credentials_def env_credentials_def no_credentials_def)
  have h2: "\<not> truthy None" by simp
  from legal_agent_missing_key [OF h1 h2] h1 show ?thesis by simp
qed

section \<open>Reading an uploaded document\<close>

text \<open>
  Claim C8, as amended. For every content and every declared type other than
  \<^verbatim>\<open>pdf\<close>, \<^verbatim>\<open>docx\<close> and \<^verbatim>\<open>txt\<close>, \<^verbatim>\<open>display_document_content\<close> returns \<^verbatim>\<open>None\<close>: no text, not
  even an empty one, no exception, and no message. It reads neither the content nor a
  library.
\<close>

theorem display_document_content_unknown_type:
  assumes "file_type \<notin> {ascii ''pdf'', ascii ''docx'', ascii ''txt''}"
  shows "display_document_content x doc_file file_type = (Inr None, [])"
  using assms by (simp add: display_document_content_def document_text_def)

text \<open>A file declared \<^verbatim>\<open>rtf\<close>, with the first bytes of an RTF document.\<close>

theorem display_document_content_unknown_type_witness:
  "ascii ''rtf'' \<notin> {ascii ''pdf'', ascii ''docx'', ascii ''txt''} \<and>
   display_document_content no_credentials [0x7B, 0x5C, 0x72, 0x74, 0x66] (ascii ''rtf'')
     = (Inr None, [])"
proof -
  have h: "ascii ''rtf'' \<notin> {ascii ''pdf'', ascii ''docx'', ascii ''txt''}"
    by (simp add: ascii_def)
  from display_document_content_unknown_type [OF h] h show ?thesis by simp
qed

text \<open>
  Claim C8 as stated fails: for the declared type \<^verbatim>\<open>rtf\<close> the function does not fail
  with an error of a type of its own, it returns \<^verbatim>\<open>None\<close>; and \<^verbatim>\<open>None\<close> is also what it
  returns for a \<^verbatim>\<open>txt\<close> file whose bytes do not decode, so the value does not tell an
  unsupported format from a decoding error.
\<close>

theorem display_document_content_untyped_counterexample:
  "fst (display_document_content no_credentials [0x7B, 0x5C, 0x72, 0x74, 0x66] (ascii ''rtf''))
     = Inr None \<and>
   fst (display_document_content undecodable [0xFF] (ascii ''txt'')) = Inr None"
  by (simp add: display_document_content_def document_text_def undecodable_def
      no_credentials_def ascii_def)

section \<open>The history\<close>

lemma chat_history_foldl_append:
  "chat_history (foldl append_history s es) = chat_history s @ es"
  by (induction es arbitrary: s) (simp_all add: append_history_def)

text \<open>
  Claim C6. In a new session, after the ten entries \<open>e1\<close> to \<open>e10\<close> are appended, the
  history section shows \<open>e10, e9, e8, e7, e6\<close>, and the stored history still holds the
  ten entries in the order they came; after the history is cleared, the section shows
  nothing and the stored history is empty.
\<close>

theorem shown_history_last_five:
  "shown_history (foldl append_history (init_session_state new_session)
                   [e1, e2, e3, e4, e5, e6, e7, e8, e9, e10])
     = [e10, e9, e8, e7, e6] \<and>
   chat_history (foldl append_history (init_session_state new_session)
                   [e1, e2, e3, e4, e5, e6, e7, e8, e9, e10])
     = [e1, e2, e3, e4, e5, e6, e7, e8, e9, e10] \<and>
   shown_history (clear_history (foldl append_history (init_session_state new_session)
                   [e1, e2, e3, e4, e5, e6, e7, e8, e9, e10]))
     = [] \<and>
   chat_history (clear_history (foldl append_history (init_session_state new_session)
                   [e1, e2, e3, e4, e5, e6, e7, e8, e9, e10]))
     = []"
proof -
  let ?s = "foldl append_history (init_session_state new_session)
              [e1, e2, e3, e4, e5, e6, e7, e8, e9, e10]"
  have h: "chat_history ?s = [e1, e2, e3, e4, e5, e6, e7, e8, e9, e10]"
    unfolding chat_history_foldl_append
    by (simp add: init_session_state_def new_session_def)
  have a: "shown_history ?s = [e10, e9, e8, e7, e6]"
    unfolding shown_history_def h by (simp add: slice_from_def)
  have c: "chat_history (clear_history ?s) = []"
    by (simp add: clear_history_def)
  have b: "shown_history (clear_history ?s) = []"
    unfolding shown_history_def c by simp
  show ?thesis using h a b c by blast
qed

section \<open>The reports\<close>
















end
